theory Spec2Isabelle
  imports Complex_Main
begin

section \<open>Funding-rate mean-reversion signal engine\<close>

text \<open>
  A shallow embedding of \<^verbatim>\<open>src/lib/analysis.ts\<close> (the canonical signal engine),
  of \<^verbatim>\<open>calculateStats\<close> and \<^verbatim>\<open>calculateZScore\<close> from the signals library
  and of \<^verbatim>\<open>calculateProgress\<close> from the risk library.

  A TypeScript \<^verbatim>\<open>number\<close> is modelled as a \<^typ>\<open>real\<close>: arithmetic is exact, so the
  rounding of IEEE-754 doubles is not part of the model. The values a double has beyond
  the reals (\<^verbatim>\<open>NaN\<close>, \<^verbatim>\<open>Infinity\<close>, \<^verbatim>\<open>-Infinity\<close>, \<^verbatim>\<open>undefined\<close>) are modelled where the
  code can produce them from finite inputs: by \<open>jsnum\<close> below.
\<close>

subsection \<open>Numbers that can leave the reals\<close>

datatype jsnum = Fin real | PInf | NInf | NaN

text \<open>
  Subtraction, division, \<^verbatim>\<open>Math.log2\<close>, \<^verbatim>\<open>Math.min\<close> and \<^verbatim>\<open>Math.max\<close> of two
  arguments, following IEEE-754 and ECMAScript on the special values. Signed zeros are
  not distinguished: every zero divisor the modelled code can reach is \<open>+0\<close>.
\<close>

fun jsub :: "jsnum \<Rightarrow> jsnum \<Rightarrow> jsnum" where
  "jsub NaN _ = NaN"
| "jsub _ NaN = NaN"
| "jsub (Fin a) (Fin b) = Fin (a - b)"
| "jsub PInf PInf = NaN"
| "jsub NInf NInf = NaN"
| "jsub PInf _ = PInf"
| "jsub NInf _ = NInf"
| "jsub (Fin a) PInf = NInf"
| "jsub (Fin a) NInf = PInf"

fun jdiv :: "jsnum \<Rightarrow> jsnum \<Rightarrow> jsnum" where
  "jdiv NaN _ = NaN"
| "jdiv _ NaN = NaN"
| "jdiv (Fin a) (Fin b) =
     (if b \<noteq> 0 then Fin (a / b)
      else if 0 < a then PInf else if a < 0 then NInf else NaN)"
| "jdiv (Fin a) PInf = Fin 0"
| "jdiv (Fin a) NInf = Fin 0"
| "jdiv PInf (Fin b) = (if 0 \<le> b then PInf else NInf)"
| "jdiv NInf (Fin b) = (if 0 \<le> b then NInf else PInf)"
| "jdiv PInf _ = NaN"
| "jdiv NInf _ = NaN"

fun jlog2 :: "jsnum \<Rightarrow> jsnum" where
  "jlog2 (Fin x) = (if 0 < x then Fin (log 2 x) else if x = 0 then NInf else NaN)"
| "jlog2 PInf = PInf"
| "jlog2 NInf = NaN"
| "jlog2 NaN = NaN"

fun jless :: "jsnum \<Rightarrow> jsnum \<Rightarrow> bool" where
  "jless NaN _ = False"
| "jless _ NaN = False"
| "jless (Fin a) (Fin b) = (a < b)"
| "jless NInf NInf = False"
| "jless NInf _ = True"
| "jless _ NInf = False"
| "jless PInf _ = False"
| "jless (Fin a) PInf = True"

fun jmin :: "jsnum \<Rightarrow> jsnum \<Rightarrow> jsnum" where
  "jmin NaN _ = NaN"
| "jmin _ NaN = NaN"
| "jmin a b = (if jless b a then b else a)"

fun jmax :: "jsnum \<Rightarrow> jsnum \<Rightarrow> jsnum" where
  "jmax NaN _ = NaN"
| "jmax _ NaN = NaN"
| "jmax a b = (if jless a b then b else a)"

subsection \<open>Data model\<close>

datatype SignalType =
  ULTRA_LONG | STRONG_LONG | LONG | NEUTRAL | SHORT | STRONG_SHORT | ULTRA_SHORT

text \<open>
  A funding-rate sample. The source keeps the timestamp as a string and sorts by
  \<^verbatim>\<open>new Date(a.timestamp).getTime()\<close>; the model keeps that number of milliseconds.
\<close>

record FundingRate =
  timestamp :: int
  fundingRate :: real
  relativeFundingRate :: real

text \<open>
  The result of an analysis. \<open>currentRate\<close> is \<open>None\<close> when the source reads
  \<^verbatim>\<open>rates[rates.length - 1]\<close> on an empty array (\<^verbatim>\<open>undefined\<close>); \<open>mean\<close> and \<open>std\<close>
  are \<open>NaN\<close> then. The source's \<^verbatim>\<open>timestamp: new Date()\<close> reads the clock and is
  left out.
\<close>

record Analysis =
  symbol :: string
  price :: real
  currentRate :: "real option"
  mean :: jsnum
  std :: jsnum
  zScore :: real
  signal :: SignalType
  confirmations :: nat
  confirmationDetails :: "string list"
  edgeScore :: real
  winProbability :: real
  isFundingReversing :: bool

record PositionSize =
  positionSize :: real
  leverage :: real
  riskAmount :: real
  riskPercent :: real
  stopLossPercent :: real
  takeProfitPercent :: real
  stopLossPrice :: real
  takeProfitPrice :: real
  expectedValue :: real

datatype RiskMode = LOW | MEDIUM | HIGH | ULTRA

record RiskProfile =
  risk :: real
  profileLeverage :: real
  minConfirmations :: nat
  minZ :: real

fun RISK_PROFILES :: "RiskMode \<Rightarrow> RiskProfile" where
  "RISK_PROFILES LOW =
     \<lparr>risk = 0.02, profileLeverage = 3, minConfirmations = 2, minZ = 1.8\<rparr>"
| "RISK_PROFILES MEDIUM =
     \<lparr>risk = 0.03, profileLeverage = 5, minConfirmations = 3, minZ = 2.0\<rparr>"
| "RISK_PROFILES HIGH =
     \<lparr>risk = 0.05, profileLeverage = 7, minConfirmations = 4, minZ = 2.5\<rparr>"
| "RISK_PROFILES ULTRA =
     \<lparr>risk = 0.08, profileLeverage = 10, minConfirmations = 5, minZ = 3.0\<rparr>"

subsection \<open>The signal classifier\<close>

text \<open>
  Lines 133 to 142 of \<^verbatim>\<open>analyzeAsset\<close>: \<open>signal\<close> starts as \<open>NEUTRAL\<close> and the
  chain of \<^verbatim>\<open>if / else if\<close> assigns it at the first test that holds.
\<close>

definition classifySignal :: "real \<Rightarrow> nat \<Rightarrow> SignalType" where
  "classifySignal z c =
     (if z \<ge> 3.0 \<and> c \<ge> 5 then ULTRA_SHORT
      else if z \<ge> 2.5 \<and> c \<ge> 4 then STRONG_SHORT
      else if z \<ge> 2.0 \<and> c \<ge> 3 then SHORT
      else if z \<ge> 1.8 \<and> c \<ge> 2 then SHORT
      else if z \<le> - 3.0 \<and> c \<ge> 5 then ULTRA_LONG
      else if z \<le> - 2.5 \<and> c \<ge> 4 then STRONG_LONG
      else if z \<le> - 2.0 \<and> c \<ge> 3 then LONG
      else if z \<le> - 1.8 \<and> c \<ge> 2 then LONG
      else NEUTRAL)"

subsection \<open>Confirmations\<close>

text \<open>
  \<^verbatim>\<open>Number.prototype.toFixed(2)\<close> for a number below \<open>10^21\<close> in magnitude: the sign,
  then the integer \<open>n\<close> nearest to \<open>100 * |x|\<close> (the larger one at a tie) printed with
  two decimals. (From \<open>10^21\<close> on the source prints an exponent form instead, which is
  not modelled; a z-score of a window of \<open>N\<close> samples is at most \<open>sqrt N\<close>.)
\<close>

definition digit_char :: "nat \<Rightarrow> char" where
  "digit_char d = ''0123456789'' ! (d mod 10)"

function string_of_nat :: "nat \<Rightarrow> string" where
  "string_of_nat n =
     (if n < 10 then [digit_char n]
      else string_of_nat (n div 10) @ [digit_char (n mod 10)])"
  by pat_completeness auto
termination
  by (relation "measure (\<lambda>n. n)") auto

definition toFixed2 :: "real \<Rightarrow> string" where
  "toFixed2 x =
     (let s = (if x < 0 then ''-'' else []);
          n = nat \<lfloor>\<bar>x\<bar> * 100 + 1 / 2\<rfloor>
      in s @ string_of_nat (n div 100) @ ''.''
           @ [digit_char (n mod 100 div 10), digit_char (n mod 10)])"

text \<open>The UTF-8 bytes of the two characters outside ASCII in the source's messages.\<close>

definition sigma_utf8 :: string where
  "sigma_utf8 = [char_of (0xCF :: nat), char_of (0x83 :: nat)]"

definition fire_utf8 :: string where
  "fire_utf8 =
     [char_of (0xF0 :: nat), char_of (0x9F :: nat), char_of (0x94 :: nat), char_of (0xA5 :: nat)]"

text \<open>
  One \<^verbatim>\<open>if (cond) { confirmations++; confirmationDetails.push(msg); }\<close> of lines 103
  to 130, on the pair of the counter and the list.
\<close>

definition confirm :: "bool \<Rightarrow> string \<Rightarrow> nat \<times> string list \<Rightarrow> nat \<times> string list" where
  "confirm cond msg t = (if cond then (fst t + 1, snd t @ [msg]) else t)"

text \<open>
  Lines 97 to 130 of \<^verbatim>\<open>analyzeAsset\<close>. \<open>nearExtreme\<close> is the value of the test
  \<^verbatim>\<open>currentRate > historicalMax * 0.9 || currentRate < historicalMin * 0.9\<close>.
\<close>

definition countConfirmations :: "real \<Rightarrow> bool \<Rightarrow> bool \<Rightarrow> nat \<times> string list" where
  "countConfirmations z reversing nearExtreme =
     (let absZ = \<bar>z\<bar>;
          t0 = (0, []);
          t1 = confirm (absZ \<ge> 1.8) (''Z-Score: '' @ toFixed2 z @ sigma_utf8) t0;
          t2 = confirm (absZ \<ge> 2.0) (''Above 2'' @ sigma_utf8 @ '' threshold'') t1;
          t3 = confirm (absZ \<ge> 2.5) (''Extreme deviation (2.5'' @ sigma_utf8 @ ''+)'') t2;
          t4 = confirm (absZ \<ge> 3.0)
                 (fire_utf8 @ '' Ultra extreme (3'' @ sigma_utf8 @ ''+)'') t3;
          t5 = confirm reversing ''Funding trend reversing'' t4;
          t6 = confirm nearExtreme ''Near historical extreme'' t5
      in t6)"

subsection \<open>Edge score and win probability\<close>

text \<open>Line 145, with \<^verbatim>\<open>absZ = Math.abs(zScore)\<close> of line 101.\<close>

definition edgeScoreOf :: "real \<Rightarrow> nat \<Rightarrow> real" where
  "edgeScoreOf z confs = min 100 ((\<bar>z\<bar> * 15) + (real confs * 12))"

text \<open>Lines 148 to 152: the variable \<^verbatim>\<open>winProbability\<close> is updated four times.\<close>

definition winProbabilityOf :: "real \<Rightarrow> nat \<Rightarrow> bool \<Rightarrow> real" where
  "winProbabilityOf z confs reversing =
     (let w0 = 0.50;
          w1 = w0 + min 0.15 (\<bar>z\<bar> * 0.05);
          w2 = w1 + real confs * 0.03;
          w3 = (if reversing then w2 + 0.05 else w2)
      in min 0.80 w3)"

subsection \<open>analyzeAsset\<close>

text \<open>
  \<^verbatim>\<open>xs.slice(-n)\<close> for a count \<open>n\<close>: the last \<open>n\<close> elements, all of them when there
  are fewer; and, since \<^verbatim>\<open>-0\<close> is \<open>0\<close>, the whole array when \<open>n = 0\<close>.
\<close>

definition slice_last :: "nat \<Rightarrow> 'a list \<Rightarrow> 'a list" where
  "slice_last n xs = (if n = 0 then xs else drop (length xs - n) xs)"

text \<open>
  Lines 97 to 168: everything \<^verbatim>\<open>analyzeAsset\<close> does once the statistics, the trend and
  the historical-extreme test are known.
\<close>

definition scoreAnalysis ::
  "string \<Rightarrow> real \<Rightarrow> real option \<Rightarrow> jsnum \<Rightarrow> jsnum \<Rightarrow> real \<Rightarrow> bool \<Rightarrow> bool \<Rightarrow> Analysis" where
  "scoreAnalysis sname currentPrice cur mu sd z reversing nearExtreme =
     (let t = countConfirmations z reversing nearExtreme;
          confs = fst t;
          details = snd t
      in \<lparr>symbol = sname, price = currentPrice, currentRate = cur, mean = mu, std = sd,
          zScore = z, signal = classifySignal z confs, confirmations = confs,
          confirmationDetails = details, edgeScore = edgeScoreOf z confs,
          winProbability = winProbabilityOf z confs reversing,
          isFundingReversing = reversing\<rparr>)"

text \<open>
  Lines 73 to 76: the samples sorted by timestamp (\<^verbatim>\<open>Array.prototype.sort\<close> is
  stable, as \<open>sort_key\<close> is), then each relative rate as a percentage.
\<close>

definition ratesOf :: "FundingRate list \<Rightarrow> real list" where
  "ratesOf fundingRates =
     (let sortedRates = sort_key timestamp fundingRates
      in map (\<lambda>r. relativeFundingRate r * 100) sortedRates)"

text \<open>
  Lines 125 to 127, the historical-extreme test
  \<^verbatim>\<open>currentRate > historicalMax * 0.9 || currentRate < historicalMin * 0.9\<close>.
  \<^verbatim>\<open>Math.max()\<close> of no argument is \<^verbatim>\<open>-Infinity\<close>, below every number; a current rate
  that is \<^verbatim>\<open>undefined\<close> compares false with everything.
\<close>

definition nearHistoricalExtreme :: "real list \<Rightarrow> real option \<Rightarrow> bool" where
  "nearHistoricalExtreme lookback cur =
     (case cur of
        None \<Rightarrow> False
      | Some c \<Rightarrow>
          (case lookback of
             [] \<Rightarrow> True
           | l # ls \<Rightarrow>
               (let historicalMax = fold max ls l;
                    historicalMin = fold min ls l
                in c > historicalMax * 0.9 \<or> c < historicalMin * 0.9)))"

text \<open>
  Line 85, \<^verbatim>\<open>std > 0 ? (currentRate - mean) / std : 0\<close>. The quotient is JavaScript's
  division, \<open>jdiv\<close>: by a divisor 0 it is \<^verbatim>\<open>Infinity\<close>, \<^verbatim>\<open>-Infinity\<close> or \<^verbatim>\<open>NaN\<close>,
  never 0.
\<close>

definition zScoreOf :: "real \<Rightarrow> real \<Rightarrow> real \<Rightarrow> jsnum" where
  "zScoreOf cur mu sd = (if sd > 0 then jdiv (Fin (cur - mu)) (Fin sd) else Fin 0)"

text \<open>
  The z-score is kept in the record as a real. \<open>the_Fin\<close> reads a finite number and
  says nothing of a number that is not finite; \<open>zScoreOf\<close> returns none (lemma
  \<open>zScoreOf_finite\<close>).
\<close>

fun the_Fin :: "jsnum \<Rightarrow> real" where
  "the_Fin (Fin r) = r"

text \<open>
  \<^verbatim>\<open>analyzeAsset(symbol, fundingRates, currentPrice, lookbackPeriods = 90)\<close>; \<open>None\<close> is
  the source's \<^verbatim>\<open>null\<close>, and the lookback size is a count, a natural number. The
  \<^verbatim>\<open>console.warn\<close> before \<^verbatim>\<open>return null\<close> changes no value and is left out.

  The window \<open>lookback\<close> is empty only when \<open>rates\<close> is (lemma \<open>slice_last_Nil\<close>), that
  is for no samples and \<open>lookbackPeriods = 0\<close>. There the source computes
  \<^verbatim>\<open>0 / 0 = NaN\<close> for the mean and the variance, reads \<^verbatim>\<open>undefined\<close> as the current
  rate, and every comparison with them is false: the z-score is 0 and there is no
  reversal.
\<close>

definition analyzeAsset :: "string \<Rightarrow> FundingRate list \<Rightarrow> real \<Rightarrow> nat \<Rightarrow> Analysis option" where
  "analyzeAsset sname fundingRates currentPrice lookbackPeriods =
     (if length fundingRates < lookbackPeriods then None
      else
        let rates = ratesOf fundingRates;
            lookback = slice_last lookbackPeriods rates
        in (case lookback of
              [] \<Rightarrow>
                Some (scoreAnalysis sname currentPrice None NaN NaN 0 False
                        (nearHistoricalExtreme lookback None))
            | l # ls \<Rightarrow>
                let mu = foldl (\<lambda>a b. a + b) 0 lookback / real (length lookback);
                    variance = foldl (\<lambda>sum val. sum + (val - mu) ^ 2) 0 lookback
                                 / real (length lookback);
                    sd = sqrt variance;
                    cur = last rates;
                    z = the_Fin (zScoreOf cur mu sd);
                    recentRates = slice_last 6 rates;
                    fundingTrend =
                      (if length recentRates \<ge> 2
                       then (last recentRates - hd recentRates)
                              / real (length recentRates - 1)
                       else 0);
                    reversing = ((cur > mu \<and> fundingTrend < 0) \<or> (cur < mu \<and> fundingTrend > 0))
                in Some (scoreAnalysis sname currentPrice (Some cur) (Fin mu) (Fin sd) z
                           reversing (nearHistoricalExtreme lookback (Some cur)))))"

subsection \<open>calculatePosition\<close>

fun signalName :: "SignalType \<Rightarrow> string" where
  "signalName ULTRA_LONG = ''ULTRA_LONG''"
| "signalName STRONG_LONG = ''STRONG_LONG''"
| "signalName LONG = ''LONG''"
| "signalName NEUTRAL = ''NEUTRAL''"
| "signalName SHORT = ''SHORT''"
| "signalName STRONG_SHORT = ''STRONG_SHORT''"
| "signalName ULTRA_SHORT = ''ULTRA_SHORT''"

text \<open>\<^verbatim>\<open>s.includes(sub)\<close>: \<open>sub\<close> occurs in \<open>s\<close> as a contiguous substring.\<close>

fun str_includes :: "string \<Rightarrow> string \<Rightarrow> bool" where
  "str_includes [] sub = (sub = [])"
| "str_includes (c # cs) sub = (take (length sub) (c # cs) = sub \<or> str_includes cs sub)"

text \<open>\<^verbatim>\<open>Math.round\<close>: the nearest integer, the larger one at a tie.\<close>

definition Math_round :: "real \<Rightarrow> real" where
  "Math_round x = of_int \<lfloor>x + 1 / 2\<rfloor>"

definition calculatePosition :: "Analysis \<Rightarrow> real \<Rightarrow> RiskMode \<Rightarrow> PositionSize" where
  "calculatePosition analysis capital riskMode =
     (let profile = RISK_PROFILES riskMode;
          multipliers =
            (if str_includes (signalName (signal analysis)) ''ULTRA'' then (1.5, 1.3)
             else if str_includes (signalName (signal analysis)) ''STRONG'' then (1.2, 1.15)
             else (1.0, 1.0));
          riskMultiplier = fst multipliers;
          leverageMultiplier = snd multipliers;
          effectiveRisk = min (risk profile * riskMultiplier) 0.10;
          effectiveLeverage = min (Math_round (profileLeverage profile * leverageMultiplier)) 15;
          riskAmt = capital * effectiveRisk;
          stopLossPct = 0.015;
          takeProfitPct = stopLossPct * 2;
          posSize = riskAmt / stopLossPct;
          isLong = str_includes (signalName (signal analysis)) ''LONG'';
          stopPrice = (if isLong then price analysis * (1 - stopLossPct)
                       else price analysis * (1 + stopLossPct));
          targetPrice = (if isLong then price analysis * (1 + takeProfitPct)
                         else price analysis * (1 - takeProfitPct));
          ev = (winProbability analysis * takeProfitPct)
                 - ((1 - winProbability analysis) * stopLossPct)
      in \<lparr>positionSize = min posSize (capital * 0.4), leverage = effectiveLeverage,
          riskAmount = riskAmt, riskPercent = effectiveRisk, stopLossPercent = stopLossPct,
          takeProfitPercent = takeProfitPct, stopLossPrice = stopPrice,
          takeProfitPrice = targetPrice, expectedValue = ev\<rparr>)"

subsection \<open>The signals library: calculateStats and calculateZScore\<close>

text \<open>The pair is the source's object \<^verbatim>\<open>{ mean, std }\<close>.\<close>

definition calculateStats :: "real list \<Rightarrow> real \<times> real" where
  "calculateStats vals =
     (if length vals = 0 then (0, 0)
      else
        let mu = foldl (\<lambda>a b. a + b) 0 vals / real (length vals);
            squaredDiffs = map (\<lambda>v. (v - mu) ^ 2) vals;
            variance = foldl (\<lambda>a b. a + b) 0 squaredDiffs / real (length vals);
            sd = sqrt variance
        in (mu, sd))"

text \<open>
  The quotient of the last line is JavaScript's division as well, so the result is a
  \<open>jsnum\<close>.
\<close>

definition calculateZScore :: "FundingRate list \<Rightarrow> real \<Rightarrow> nat \<Rightarrow> jsnum" where
  "calculateZScore historicalRates cur lookbackPeriods =
     (if length historicalRates < 10 then Fin 0
      else
        let rates = map relativeFundingRate (slice_last lookbackPeriods historicalRates);
            stats = calculateStats rates
        in if snd stats = 0 then Fin 0 else jdiv (Fin (cur - fst stats)) (Fin (snd stats)))"

subsection \<open>The risk library: calculateProgress\<close>

record Progress =
  linearProgress :: jsnum
  logProgress :: jsnum
  doublings :: jsnum
  doublingsRemaining :: jsnum

text \<open>
  \<^verbatim>\<open>calculateProgress(current, start = 5000, goal = 100000)\<close>. The arguments are finite
  numbers; a quotient or a logarithm of them need not be.
\<close>

definition calculateProgress :: "real \<Rightarrow> real \<Rightarrow> real \<Rightarrow> Progress" where
  "calculateProgress current start goal =
     (let linear = jdiv (jsub (Fin current) (Fin start)) (jsub (Fin goal) (Fin start));
          totalDoublings = jlog2 (jdiv (Fin goal) (Fin start));
          completedDoublings = jlog2 (jdiv (Fin current) (Fin start));
          logP = jdiv completedDoublings totalDoublings
      in \<lparr>linearProgress = jmax (Fin 0) (jmin (Fin 1) linear),
          logProgress = jmax (Fin 0) (jmin (Fin 1) logP),
          doublings = completedDoublings,
          doublingsRemaining = jsub totalDoublings completedDoublings\<rparr>)"

subsection \<open>The specification's reading of the classifier and of clamping\<close>

text \<open>
  The classification table as the specification words it, the first matching row
  winning: the two rows that give \<open>SHORT\<close> (and the two that give \<open>LONG\<close>) are one
  row with a disjunction.
\<close>

definition spec_classify :: "real \<Rightarrow> nat \<Rightarrow> SignalType" where
  "spec_classify z c =
     (if z \<ge> 3.0 \<and> c \<ge> 5 then ULTRA_SHORT
      else if z \<ge> 2.5 \<and> c \<ge> 4 then STRONG_SHORT
      else if (z \<ge> 2.0 \<and> c \<ge> 3) \<or> (z \<ge> 1.8 \<and> c \<ge> 2) then SHORT
      else if z \<le> - 3.0 \<and> c \<ge> 5 then ULTRA_LONG
      else if z \<le> - 2.5 \<and> c \<ge> 4 then STRONG_LONG
      else if (z \<le> - 2.0 \<and> c \<ge> 3) \<or> (z \<le> - 1.8 \<and> c \<ge> 2) then LONG
      else NEUTRAL)"

text \<open>The SHORT/LONG mirror of the specification.\<close>

fun mirror :: "SignalType \<Rightarrow> SignalType" where
  "mirror ULTRA_SHORT = ULTRA_LONG"
| "mirror ULTRA_LONG = ULTRA_SHORT"
| "mirror STRONG_SHORT = STRONG_LONG"
| "mirror STRONG_LONG = STRONG_SHORT"
| "mirror SHORT = LONG"
| "mirror LONG = SHORT"
| "mirror NEUTRAL = NEUTRAL"

text \<open>
  The strength of a class, by which one class is weaker than another: NEUTRAL below
  the plain classes, these below the STRONG ones, these below the ULTRA ones.
\<close>

fun strength :: "SignalType \<Rightarrow> nat" where
  "strength NEUTRAL = 0"
| "strength SHORT = 1"
| "strength LONG = 1"
| "strength STRONG_SHORT = 2"
| "strength STRONG_LONG = 2"
| "strength ULTRA_SHORT = 3"
| "strength ULTRA_LONG = 3"

text \<open>
  The specification's \<open>clamp(x, lo, hi)\<close>: \<open>lo\<close> below \<open>lo\<close>, \<open>hi\<close> above \<open>hi\<close>, and
  \<open>x\<close> itself otherwise.
\<close>

definition clamp :: "jsnum \<Rightarrow> jsnum \<Rightarrow> jsnum \<Rightarrow> jsnum" where
  "clamp x lo hi = (if jless x lo then lo else if jless hi x then hi else x)"

text \<open>
  A call that leaves \<^verbatim>\<open>lookbackPeriods\<close> out takes the default of 90.
\<close>

definition analyzeAssetDefault :: "string \<Rightarrow> FundingRate list \<Rightarrow> real \<Rightarrow> Analysis option" where
  "analyzeAssetDefault sname fundingRates currentPrice =
     analyzeAsset sname fundingRates currentPrice 90"

text \<open>
  The six conditions of lines 103 to 130 in their evaluation order, each with the
  message pushed when it holds, as the specification lists them.
\<close>

definition sixConditions :: "real \<Rightarrow> bool \<Rightarrow> bool \<Rightarrow> (bool \<times> string) list" where
  "sixConditions z reversing nearExtreme =
     [(\<bar>z\<bar> \<ge> 1.8, ''Z-Score: '' @ toFixed2 z @ sigma_utf8),
      (\<bar>z\<bar> \<ge> 2.0, ''Above 2'' @ sigma_utf8 @ '' threshold''),
      (\<bar>z\<bar> \<ge> 2.5, ''Extreme deviation (2.5'' @ sigma_utf8 @ ''+)''),
      (\<bar>z\<bar> \<ge> 3.0, fire_utf8 @ '' Ultra extreme (3'' @ sigma_utf8 @ ''+)''),
      (reversing, ''Funding trend reversing''),
      (nearExtreme, ''Near historical extreme'')]"

subsection \<open>Example inputs\<close>

text \<open>
  A sample whose two rates agree, and ten samples of the constant rate 0.25, a number
  that binary floating point holds exactly, as it does their sum and mean.
\<close>

definition sample :: "int \<Rightarrow> real \<Rightarrow> FundingRate" where
  "sample t x = \<lparr>timestamp = t, fundingRate = x, relativeFundingRate = x\<rparr>"

definition flat10 :: "FundingRate list" where
  "flat10 = [sample 0 0.25, sample 1 0.25, sample 2 0.25, sample 3 0.25, sample 4 0.25,
             sample 5 0.25, sample 6 0.25, sample 7 0.25, sample 8 0.25, sample 9 0.25]"

section \<open>Properties\<close>

subsection \<open>Auxiliary facts\<close>

lemma slice_last_Nil: "slice_last n xs = [] \<longleftrightarrow> xs = []"
  by (cases xs) (auto simp: slice_last_def)

lemma zScoreOf_finite: "\<exists>z. zScoreOf cur mu sd = Fin z"
  by (simp add: zScoreOf_def)

lemma zScoreOf_zero: "zScoreOf cur mu 0 = Fin 0"
  by (simp add: zScoreOf_def)

lemma Fin_the_Fin_zScoreOf: "Fin (the_Fin (zScoreOf cur mu sd)) = zScoreOf cur mu sd"
  by (simp add: zScoreOf_def)

lemma calculateZScore_finite: "\<exists>z. calculateZScore hist c k = Fin z"
  by (simp add: calculateZScore_def Let_def)

lemma fst_confirm: "fst (confirm c m t) = fst t + (if c then 1 else 0)"
  by (simp add: confirm_def)

lemma snd_confirm: "snd (confirm c m t) = snd t @ (if c then [m] else [])"
  by (simp add: confirm_def)

lemma length_snd_confirm: "length (snd (confirm c m t)) = length (snd t) + (if c then 1 else 0)"
  by (simp add: confirm_def)

lemma countConfirmations_length:
  "length (snd (countConfirmations z rv near)) = fst (countConfirmations z rv near)"
  by (simp add: countConfirmations_def Let_def fst_confirm length_snd_confirm)

lemma countConfirmations_le6: "fst (countConfirmations z rv near) \<le> 6"
  by (simp add: countConfirmations_def Let_def fst_confirm)

lemma confirm_filter:
  "confirm c m (length (filter fst cs), map snd (filter fst cs)) =
     (length (filter fst (cs @ [(c, m)])), map snd (filter fst (cs @ [(c, m)])))"
  by (simp add: confirm_def)

lemma countConfirmations_filter:
  "countConfirmations z rv ne =
     (length (filter fst (sixConditions z rv ne)), map snd (filter fst (sixConditions z rv ne)))"
proof -
  have start: "(0, []) = (length (filter fst ([] :: (bool \<times> string) list)),
                          map snd (filter fst ([] :: (bool \<times> string) list)))"
    by simp
  show ?thesis
    unfolding countConfirmations_def Let_def
    by (subst start) (simp only: confirm_filter append.simps sixConditions_def)
qed

lemma analyzeAsset_None_iff:
  "analyzeAsset s rs p n = None \<longleftrightarrow> length rs < n"
  by (simp add: analyzeAsset_def Let_def split: list.splits)

lemma scoreAnalysis_sel:
  "symbol (scoreAnalysis s p c m sd z rv e) = s"
  "price (scoreAnalysis s p c m sd z rv e) = p"
  "currentRate (scoreAnalysis s p c m sd z rv e) = c"
  "mean (scoreAnalysis s p c m sd z rv e) = m"
  "std (scoreAnalysis s p c m sd z rv e) = sd"
  "zScore (scoreAnalysis s p c m sd z rv e) = z"
  "isFundingReversing (scoreAnalysis s p c m sd z rv e) = rv"
  "confirmations (scoreAnalysis s p c m sd z rv e) = fst (countConfirmations z rv e)"
  "confirmationDetails (scoreAnalysis s p c m sd z rv e) = snd (countConfirmations z rv e)"
  "signal (scoreAnalysis s p c m sd z rv e) = classifySignal z (fst (countConfirmations z rv e))"
  "edgeScore (scoreAnalysis s p c m sd z rv e) = edgeScoreOf z (fst (countConfirmations z rv e))"
  "winProbability (scoreAnalysis s p c m sd z rv e)
     = winProbabilityOf z (fst (countConfirmations z rv e)) rv"
  by (simp_all add: scoreAnalysis_def Let_def)

lemma analyzeAsset_Some_score:
  assumes "analyzeAsset s rs p n = Some a"
  shows "a = scoreAnalysis s p (currentRate a) (mean a) (std a) (zScore a)
               (isFundingReversing a)
               (nearHistoricalExtreme (slice_last n (ratesOf rs)) (currentRate a))"
proof (cases "slice_last n (ratesOf rs)")
  case Nil
  with assms show ?thesis
    by (auto simp: analyzeAsset_def Let_def scoreAnalysis_sel split: if_splits)
next
  case (Cons l ls)
  with assms show ?thesis
    by (auto simp: analyzeAsset_def Let_def scoreAnalysis_sel split: if_splits)
qed

lemma analyzeAsset_std_zero:
  assumes "analyzeAsset s rs p n = Some a" and "std a = Fin 0"
  shows "zScore a = 0"
proof (cases "slice_last n (ratesOf rs)")
  case Nil
  with assms show ?thesis
    by (auto simp: analyzeAsset_def Let_def scoreAnalysis_sel split: if_splits)
next
  case (Cons l ls)
  with assms show ?thesis
    by (auto simp: analyzeAsset_def Let_def scoreAnalysis_sel zScoreOf_zero split: if_splits)
qed

lemma analyzeAsset_zScoreOf:
  assumes "analyzeAsset s rs p n = Some a"
    and "currentRate a = Some c" and "mean a = Fin m" and "std a = Fin d"
  shows "zScoreOf c m d = Fin (zScore a)"
proof (cases "slice_last n (ratesOf rs)")
  case Nil
  with assms show ?thesis
    by (auto simp: analyzeAsset_def Let_def scoreAnalysis_sel split: if_splits)
next
  case (Cons l ls)
  with assms show ?thesis
    by (auto simp: analyzeAsset_def Let_def scoreAnalysis_sel Fin_the_Fin_zScoreOf
        split: if_splits)
qed

lemma edgeScoreOf_mono:
  assumes "\<bar>z1\<bar> \<le> \<bar>z2\<bar>" and "c1 \<le> c2"
  shows "edgeScoreOf z1 c1 \<le> edgeScoreOf z2 c2"
proof -
  have "real c1 \<le> real c2" using assms(2) by simp
  with assms(1) have "\<bar>z1\<bar> * 15 + real c1 * 12 \<le> \<bar>z2\<bar> * 15 + real c2 * 12"
    by linarith
  then show ?thesis
    unfolding edgeScoreOf_def by (intro min.mono) simp_all
qed

lemma winProbabilityOf_eq:
  "winProbabilityOf z c rv =
     min (4 / 5) (1 / 2 + min (3 / 20) (\<bar>z\<bar> / 20) + real c * (3 / 100)
                    + (if rv then 1 / 20 else 0))"
  by (simp add: winProbabilityOf_def Let_def)

lemma winProbabilityOf_mono:
  assumes "\<bar>z1\<bar> \<le> \<bar>z2\<bar>" and "c1 \<le> c2"
  shows "winProbabilityOf z1 c1 rv \<le> winProbabilityOf z2 c2 rv"
proof -
  have c: "real c1 * (3 / 100) \<le> real c2 * (3 / 100)" using assms(2) by simp
  have m: "min (3 / 20) (\<bar>z1\<bar> / 20) \<le> min (3 / 20 :: real) (\<bar>z2\<bar> / 20)"
    using assms(1) by (intro min.mono) simp_all
  show ?thesis
    unfolding winProbabilityOf_eq by (intro min.mono add_mono order_refl c m)
qed

lemma edgeScoreOf_bounds: "0 \<le> edgeScoreOf z c \<and> edgeScoreOf z c \<le> 100"
  by (simp add: edgeScoreOf_def)

lemma winProbabilityOf_bounds:
  "0.50 \<le> winProbabilityOf z c rv \<and> winProbabilityOf z c rv \<le> 0.80"
proof -
  have a: "0 \<le> min (3 / 20) (\<bar>z\<bar> / 20)" by simp
  have b: "0 \<le> real c * (3 / 100)" by simp
  have d: "0 \<le> (if rv then 1 / 20 else (0::real))" by simp
  have "1 / 2 + 0 + 0 + 0 \<le> 1 / 2 + min (3 / 20) (\<bar>z\<bar> / 20) + real c * (3 / 100)
                   + (if rv then 1 / 20 else 0)"
    by (intro add_mono order_refl a b d)
  then have lo: "1 / 2 \<le> 1 / 2 + min (3 / 20) (\<bar>z\<bar> / 20) + real c * (3 / 100)
                   + (if rv then 1 / 20 else 0)"
    by simp
  have "1 / 2 \<le> winProbabilityOf z c rv"
    unfolding winProbabilityOf_eq by (intro min.boundedI lo) simp
  moreover have "winProbabilityOf z c rv \<le> 4 / 5"
    unfolding winProbabilityOf_eq by (rule min.cobounded1)
  ultimately show ?thesis by simp
qed


subsection \<open>The signal classifier\<close>

text \<open>
  C1, as stated, has every z-score that clears a magnitude threshold without the
  confirmation count paired with it end in a weaker class or in NEUTRAL. At the
  2.0 / 3 pair it does not: 2.2 with 2 confirmations is SHORT through the 1.8 / 2 row,
  the class it has with 3 confirmations, neither weaker nor NEUTRAL.
\<close>

theorem classifier_degrade_counterexample:
  "(2.2 :: real) \<ge> 2.0 \<and> (2 :: nat) < 3
   \<and> classifySignal 2.2 2 = SHORT \<and> classifySignal 2.2 3 = SHORT
   \<and> \<not> strength (classifySignal 2.2 2) < strength (classifySignal 2.2 3)
   \<and> classifySignal 2.2 2 \<noteq> NEUTRAL"
  by (simp add: classifySignal_def)

text \<open>
  C1, amended. For every real z-score \<open>z\<close> and every confirmation count \<open>c\<close>, the
  classifier of \<^verbatim>\<open>analyzeAsset\<close> returns the first matching row of the specification's
  table. A z-score past 3.0 with fewer than 5 confirmations gets at most a STRONG
  class, past 2.5 with fewer than 4 at most a plain class, past 1.8 with fewer than 2
  NEUTRAL; past 2.0 with fewer than 3 it gets the plain class when there are exactly 2
  confirmations (through the 1.8 / 2 row) and NEUTRAL otherwise.
\<close>

theorem classifier_first_matching_row:
  "classifySignal z c = spec_classify z c
   \<and> (z \<ge> 3.0 \<and> c < 5 \<longrightarrow> classifySignal z c \<in> {STRONG_SHORT, SHORT, NEUTRAL})
   \<and> (z \<ge> 2.5 \<and> c < 4 \<longrightarrow> classifySignal z c \<in> {SHORT, NEUTRAL})
   \<and> (z \<ge> 2.0 \<and> c < 3 \<longrightarrow> classifySignal z c = (if c = 2 then SHORT else NEUTRAL))
   \<and> (z \<ge> 1.8 \<and> c < 2 \<longrightarrow> classifySignal z c = NEUTRAL)
   \<and> (z \<le> - 3.0 \<and> c < 5 \<longrightarrow> classifySignal z c \<in> {STRONG_LONG, LONG, NEUTRAL})
   \<and> (z \<le> - 2.5 \<and> c < 4 \<longrightarrow> classifySignal z c \<in> {LONG, NEUTRAL})
   \<and> (z \<le> - 2.0 \<and> c < 3 \<longrightarrow> classifySignal z c = (if c = 2 then LONG else NEUTRAL))
   \<and> (z \<le> - 1.8 \<and> c < 2 \<longrightarrow> classifySignal z c = NEUTRAL)"
  by (simp add: classifySignal_def spec_classify_def)

theorem classifier_first_matching_row_witness:
  "classifySignal 3.5 4 = spec_classify 3.5 4
   \<and> classifySignal 3.5 4 \<in> {STRONG_SHORT, SHORT, NEUTRAL}
   \<and> classifySignal 3.5 4 = STRONG_SHORT
   \<and> classifySignal (- 2.7) 2 \<in> {LONG, NEUTRAL}
   \<and> classifySignal (- 2.7) 2 = LONG
   \<and> classifySignal 1.9 1 = NEUTRAL"
  using classifier_first_matching_row [of "3.5" 4] classifier_first_matching_row [of "- 2.7" 2]
    classifier_first_matching_row [of "1.9" 1]
  by (simp add: classifySignal_def)

text \<open>
  C7. The classifier is anti-symmetric: the class of \<open>(z, c)\<close> is the SHORT/LONG mirror
  of the class of \<open>(- z, c)\<close>.
\<close>

theorem classifier_antisymmetric:
  "classifySignal z c = mirror (classifySignal (- z) c)"
  by (simp add: classifySignal_def)

theorem classifier_antisymmetric_witness:
  "classifySignal 3.2 5 = ULTRA_SHORT \<and> classifySignal (- 3.2) 5 = ULTRA_LONG
   \<and> classifySignal 3.2 5 = mirror (classifySignal (- 3.2) 5)"
  using classifier_antisymmetric [of "3.2" 5]
  by (simp add: classifySignal_def)

subsection \<open>Edge score and win probability\<close>

text \<open>
  C6. As functions of the magnitude of the z-score, the confirmation count and the
  reversal flag, the edge score and the win probability do not decrease when the
  magnitude or the count grows; the edge score lies in \<open>[0, 100]\<close> and the win
  probability in \<open>[0.50, 0.80]\<close>.
\<close>

theorem edge_and_win_monotone_bounded:
  "(\<bar>z1\<bar> \<le> \<bar>z2\<bar> \<and> c1 \<le> c2 \<longrightarrow>
      edgeScoreOf z1 c1 \<le> edgeScoreOf z2 c2
      \<and> winProbabilityOf z1 c1 rv \<le> winProbabilityOf z2 c2 rv)
   \<and> 0 \<le> edgeScoreOf z c \<and> edgeScoreOf z c \<le> 100
   \<and> 0.50 \<le> winProbabilityOf z c rv \<and> winProbabilityOf z c rv \<le> 0.80"
  using edgeScoreOf_mono [of z1 z2 c1 c2] winProbabilityOf_mono [of z1 z2 c1 c2 rv]
    edgeScoreOf_bounds [of z c] winProbabilityOf_bounds [of z c rv]
  by blast

theorem edge_and_win_monotone_bounded_witness:
  "\<bar>1.9 :: real\<bar> \<le> \<bar>- 2.6\<bar> \<and> (2::nat) \<le> 3
   \<and> edgeScoreOf 1.9 2 = 52.5 \<and> edgeScoreOf (- 2.6) 3 = 75
   \<and> edgeScoreOf 1.9 2 \<le> edgeScoreOf (- 2.6) 3
   \<and> winProbabilityOf 1.9 2 True = 0.705 \<and> winProbabilityOf (- 2.6) 3 True = 0.77
   \<and> winProbabilityOf 1.9 2 True \<le> winProbabilityOf (- 2.6) 3 True
   \<and> edgeScoreOf 4 5 = 100 \<and> winProbabilityOf 4 5 True = 0.80
   \<and> winProbabilityOf 0 0 False = 0.50"
  using edge_and_win_monotone_bounded [of "1.9" "- 2.6" 2 3 True 4 5]
  by (simp add: edgeScoreOf_def winProbabilityOf_def Let_def)

subsection \<open>Position sizing\<close>

text \<open>
  C2. For every analysis, capital and risk mode, the position size returned by
  \<^verbatim>\<open>calculatePosition\<close> is at most 0.40 times the capital and the leverage is at most
  15, whatever multiplier the signal applies to the profile.
\<close>

theorem position_caps:
  "positionSize (calculatePosition a capital mode) \<le> 0.40 * capital
   \<and> leverage (calculatePosition a capital mode) \<le> 15"
  by (simp add: calculatePosition_def Let_def)

theorem position_caps_witness:
  "signal (scoreAnalysis ''BTC'' 100 (Some (- 1)) (Fin 0) (Fin 1) (- 2.6) True True) = STRONG_LONG
   \<and> positionSize (calculatePosition
        (scoreAnalysis ''BTC'' 100 (Some (- 1)) (Fin 0) (Fin 1) (- 2.6) True True) 5000 MEDIUM)
       = 2000
   \<and> leverage (calculatePosition
        (scoreAnalysis ''BTC'' 100 (Some (- 1)) (Fin 0) (Fin 1) (- 2.6) True True) 5000 MEDIUM)
       = 6"
  using position_caps
      [of "scoreAnalysis ''BTC'' 100 (Some (- 1)) (Fin 0) (Fin 1) (- 2.6) True True" 5000 MEDIUM]
  by (simp add: calculatePosition_def Let_def scoreAnalysis_sel countConfirmations_filter
      sixConditions_def classifySignal_def Math_round_def)

subsection \<open>Worked examples\<close>

text \<open>
  Five samples given out of order, \<open>0, 0, 0, 0, 0.01\<close> once sorted: mean 0.2 percent,
  deviation 0.4, z-score 2. And a constant series, whose deviation is 0.
\<close>

lemma ratesOf_example:
  "ratesOf [sample 4 0.01, sample 0 0, sample 2 0, sample 1 0, sample 3 0] = [0, 0, 0, 0, 1]"
  by (simp add: ratesOf_def sample_def)

lemma sqrt_example: "sqrt (4 / 25) = 2 / 5"
proof -
  have "sqrt ((2 / 5)\<^sup>2) = \<bar>2 / (5::real)\<bar>" by (rule real_sqrt_abs)
  then show ?thesis by (simp add: power2_eq_square)
qed

lemma score_example:
  "scoreAnalysis ''BTC'' 100 (Some 1) (Fin (1 / 5)) (Fin (2 / 5)) 2 False True =
     \<lparr>symbol = ''BTC'', price = 100, currentRate = Some 1, mean = Fin (1 / 5),
      std = Fin (2 / 5), zScore = 2, signal = SHORT, confirmations = 3,
      confirmationDetails =
        [''Z-Score: 2.00'' @ sigma_utf8, ''Above 2'' @ sigma_utf8 @ '' threshold'',
         ''Near historical extreme''],
      edgeScore = 66, winProbability = 0.69, isFundingReversing = False\<rparr>"
  by (simp add: scoreAnalysis_def countConfirmations_def confirm_def classifySignal_def
      edgeScoreOf_def winProbabilityOf_def toFixed2_def digit_char_def Let_def)

lemma near_example: "nearHistoricalExtreme [0, 0, 0, 0, 1] (Some 1) = True"
  by (simp add: nearHistoricalExtreme_def)

lemma analyzeAsset_example:
  "analyzeAsset ''BTC'' [sample 4 0.01, sample 0 0, sample 2 0, sample 1 0, sample 3 0] 100 5 =
     Some \<lparr>symbol = ''BTC'', price = 100, currentRate = Some 1, mean = Fin (1 / 5),
      std = Fin (2 / 5), zScore = 2, signal = SHORT, confirmations = 3,
      confirmationDetails =
        [''Z-Score: 2.00'' @ sigma_utf8, ''Above 2'' @ sigma_utf8 @ '' threshold'',
         ''Near historical extreme''],
      edgeScore = 66, winProbability = 0.69, isFundingReversing = False\<rparr>"
proof -
  have "analyzeAsset ''BTC'' [sample 4 0.01, sample 0 0, sample 2 0, sample 1 0, sample 3 0] 100 5
        = Some (scoreAnalysis ''BTC'' 100 (Some 1) (Fin (1 / 5)) (Fin (2 / 5)) 2 False True)"
    unfolding analyzeAsset_def ratesOf_example
    by (simp add: slice_last_def Let_def sqrt_example near_example power2_eq_square
        zScoreOf_def)
  then show ?thesis by (simp only: score_example)
qed

lemma constant_example:
  "analyzeAsset ''ETH'' [sample 1 0.0001, sample 0 0.0001] 10 2 =
     Some \<lparr>symbol = ''ETH'', price = 10, currentRate = Some 0.01, mean = Fin 0.01,
      std = Fin 0, zScore = 0, signal = NEUTRAL, confirmations = 1,
      confirmationDetails = [''Near historical extreme''],
      edgeScore = 12, winProbability = 0.53, isFundingReversing = False\<rparr>"
proof -
  have r: "ratesOf [sample 1 0.0001, sample 0 0.0001] = [0.01, 0.01]"
    by (simp add: ratesOf_def sample_def)
  have "analyzeAsset ''ETH'' [sample 1 0.0001, sample 0 0.0001] 10 2
        = Some (scoreAnalysis ''ETH'' 10 (Some 0.01) (Fin 0.01) (Fin 0) 0 False True)"
    unfolding analyzeAsset_def r
    by (simp add: slice_last_def Let_def nearHistoricalExtreme_def zScoreOf_def)
  then show ?thesis
    by (simp add: scoreAnalysis_def countConfirmations_def confirm_def classifySignal_def
        edgeScoreOf_def winProbabilityOf_def Let_def)
qed

lemma flat_example:
  "analyzeAsset ''ETH'' [sample 1 0.25, sample 0 0.25] 10 2 =
     Some (scoreAnalysis ''ETH'' 10 (Some 25) (Fin 25) (Fin 0) 0 False True)"
proof -
  have r: "ratesOf [sample 1 0.25, sample 0 0.25] = [25, 25]"
    by (simp add: ratesOf_def sample_def)
  show ?thesis
    unfolding analyzeAsset_def r
    by (simp add: slice_last_def Let_def nearHistoricalExtreme_def zScoreOf_def)
qed

lemma flat10_stats:
  "calculateStats (map relativeFundingRate (slice_last 90 flat10)) = (0.25, 0)"
  by (simp add: calculateStats_def slice_last_def flat10_def sample_def Let_def)

subsection \<open>The z-score guard\<close>

text \<open>
  C3. Whenever the standard deviation computed for the lookback window is 0, the
  z-score returned is exactly 0, in \<^verbatim>\<open>analyzeAsset\<close> and in \<^verbatim>\<open>calculateZScore\<close>. The
  quotient by the deviation is JavaScript's division, which by 0 gives \<^verbatim>\<open>Infinity\<close> or
  \<^verbatim>\<open>NaN\<close>; it is taken only under the guard, so the z-score is always a finite
  number: in \<^verbatim>\<open>analyzeAsset\<close> it is the guarded quotient of the returned current rate,
  mean and deviation.
\<close>

theorem zscore_zero_when_std_zero:
  "zScoreOf cur mu 0 = Fin 0
   \<and> (\<exists>z. zScoreOf cur mu sd = Fin z)
   \<and> (analyzeAsset s rs p n = Some a \<and> currentRate a = Some c \<and> mean a = Fin m
        \<and> std a = Fin d \<longrightarrow> zScoreOf c m d = Fin (zScore a))
   \<and> (analyzeAsset s rs p n = Some a \<and> std a = Fin 0 \<longrightarrow> zScore a = 0)
   \<and> (snd (calculateStats (map relativeFundingRate (slice_last k hist))) = 0
        \<longrightarrow> calculateZScore hist x k = Fin 0)
   \<and> (\<exists>z. calculateZScore hist x k = Fin z)"
proof (intro conjI impI)
  show "zScoreOf cur mu 0 = Fin 0" by (rule zScoreOf_zero)
  show "\<exists>z. zScoreOf cur mu sd = Fin z" by (rule zScoreOf_finite)
  show "\<exists>z. calculateZScore hist x k = Fin z" by (rule calculateZScore_finite)
next
  assume "analyzeAsset s rs p n = Some a \<and> currentRate a = Some c \<and> mean a = Fin m
        \<and> std a = Fin d"
  then show "zScoreOf c m d = Fin (zScore a)"
    using analyzeAsset_zScoreOf [of s rs p n a c m d] by simp
next
  assume "analyzeAsset s rs p n = Some a \<and> std a = Fin 0"
  then show "zScore a = 0"
    using analyzeAsset_std_zero [of s rs p n a] by simp
next
  assume "snd (calculateStats (map relativeFundingRate (slice_last k hist))) = 0"
  then show "calculateZScore hist x k = Fin 0"
    by (simp add: calculateZScore_def Let_def)
qed

theorem zscore_zero_when_std_zero_witness:
  "(\<exists>a. analyzeAsset ''ETH'' [sample 1 0.25, sample 0 0.25] 10 2 = Some a
        \<and> currentRate a = Some 25 \<and> mean a = Fin 25 \<and> std a = Fin 0
        \<and> zScore a = 0 \<and> zScoreOf 25 25 0 = Fin (zScore a))
   \<and> \<not> length flat10 < 10
   \<and> snd (calculateStats (map relativeFundingRate (slice_last 90 flat10))) = 0
   \<and> calculateZScore flat10 0.5 90 = Fin 0
   \<and> jdiv (Fin (0.5 - 0.25)) (Fin 0) = PInf
   \<and> jdiv (Fin (25 - 25)) (Fin 0) = NaN"
  using zscore_zero_when_std_zero [of 25 25 0 "''ETH''" "[sample 1 0.25, sample 0 0.25]" 10 2
      "scoreAnalysis ''ETH'' 10 (Some 25) (Fin 25) (Fin 0) 0 False True" 25 25 0 90 flat10 "0.5"]
    flat_example flat10_stats
  by (simp add: flat10_def scoreAnalysis_sel)

subsection \<open>Insufficient data\<close>

text \<open>
  C4. \<^verbatim>\<open>analyzeAsset\<close> returns null exactly when there are fewer samples than the
  lookback size; with at least that many it returns an analysis, and an analysis whose
  signal is NEUTRAL is such a result, not null. Nothing is thrown: the model is total.
\<close>

theorem analyzeAsset_null_iff_insufficient:
  "(analyzeAsset s rs p n = None \<longleftrightarrow> length rs < n)
   \<and> (n \<le> length rs \<longrightarrow> (\<exists>a. analyzeAsset s rs p n = Some a))"
  using analyzeAsset_None_iff [of s rs p n] by auto

theorem analyzeAsset_null_iff_insufficient_witness:
  "analyzeAssetDefault ''ETH'' [sample 1 0.0001, sample 0 0.0001] 10 = None
   \<and> (\<exists>a. analyzeAsset ''ETH'' [sample 1 0.0001, sample 0 0.0001] 10 2 = Some a
          \<and> signal a = NEUTRAL)"
  using analyzeAsset_null_iff_insufficient [of "''ETH''" "[sample 1 0.0001, sample 0 0.0001]" 10 90]
    analyzeAsset_null_iff_insufficient [of "''ETH''" "[sample 1 0.0001, sample 0 0.0001]" 10 2]
    constant_example
  by (simp add: analyzeAssetDefault_def)

subsection \<open>Confirmations\<close>

text \<open>
  C5. For every analysis returned, the confirmation count is the number of conditions
  that hold among the six evaluated (the four thresholds 1.8, 2.0, 2.5 and 3.0 on the
  magnitude of the z-score, the funding-trend reversal, the historical-extreme test),
  and the details are the messages of exactly those conditions, in evaluation order.
  The thresholds are cumulative: a magnitude of 3.1 alone gives 4 confirmations.
\<close>

theorem confirmations_count_true_conditions:
  "(analyzeAsset s rs p n = Some a \<longrightarrow>
      confirmations a =
        length (filter fst (sixConditions (zScore a) (isFundingReversing a)
                  (nearHistoricalExtreme (slice_last n (ratesOf rs)) (currentRate a))))
      \<and> confirmationDetails a =
        map snd (filter fst (sixConditions (zScore a) (isFundingReversing a)
                  (nearHistoricalExtreme (slice_last n (ratesOf rs)) (currentRate a)))))
   \<and> (\<bar>z\<bar> = 3.1 \<longrightarrow> fst (countConfirmations z False False) = 4)"
proof (intro conjI impI)
  assume h: "analyzeAsset s rs p n = Some a"
  show "confirmations a =
        length (filter fst (sixConditions (zScore a) (isFundingReversing a)
                  (nearHistoricalExtreme (slice_last n (ratesOf rs)) (currentRate a))))"
    by (subst analyzeAsset_Some_score [OF h])
       (simp only: scoreAnalysis_sel countConfirmations_filter fst_conv)
  show "confirmationDetails a =
        map snd (filter fst (sixConditions (zScore a) (isFundingReversing a)
                  (nearHistoricalExtreme (slice_last n (ratesOf rs)) (currentRate a))))"
    by (subst analyzeAsset_Some_score [OF h])
       (simp only: scoreAnalysis_sel countConfirmations_filter snd_conv)
next
  assume "\<bar>z\<bar> = 3.1"
  then show "fst (countConfirmations z False False) = 4"
    by (simp add: countConfirmations_filter sixConditions_def)
qed

theorem confirmations_count_true_conditions_witness:
  "(\<exists>a. analyzeAsset ''BTC'' [sample 4 0.01, sample 0 0, sample 2 0, sample 1 0, sample 3 0] 100 5
          = Some a
        \<and> zScore a = 2 \<and> confirmations a = 3
        \<and> confirmationDetails a =
            [''Z-Score: 2.00'' @ sigma_utf8, ''Above 2'' @ sigma_utf8 @ '' threshold'',
             ''Near historical extreme''])
   \<and> \<bar>- 3.1 :: real\<bar> = 3.1 \<and> fst (countConfirmations (- 3.1) False False) = 4"
  using confirmations_count_true_conditions
      [of "''BTC''" "[sample 4 0.01, sample 0 0, sample 2 0, sample 1 0, sample 3 0]" 100 5
        "the (analyzeAsset ''BTC''
                [sample 4 0.01, sample 0 0, sample 2 0, sample 1 0, sample 3 0] 100 5)" "- 3.1"]
    analyzeAsset_example
  by simp

text \<open>
  C9. For every analysis returned, the details list has exactly as many entries as the
  confirmation count, and the count is at most 6.
\<close>

theorem confirmations_match_details_at_most_six:
  "analyzeAsset s rs p n = Some a \<longrightarrow>
     length (confirmationDetails a) = confirmations a \<and> confirmations a \<le> 6"
proof
  assume h: "analyzeAsset s rs p n = Some a"
  show "length (confirmationDetails a) = confirmations a \<and> confirmations a \<le> 6"
    by (subst (1 2 3) analyzeAsset_Some_score [OF h])
       (simp add: scoreAnalysis_sel countConfirmations_length countConfirmations_le6)
qed

theorem confirmations_match_details_at_most_six_witness:
  "\<exists>a. analyzeAsset ''BTC'' [sample 4 0.01, sample 0 0, sample 2 0, sample 1 0, sample 3 0] 100 5
          = Some a
        \<and> length (confirmationDetails a) = 3 \<and> confirmations a = 3 \<and> confirmations a \<le> 6"
  using confirmations_match_details_at_most_six
      [of "''BTC''" "[sample 4 0.01, sample 0 0, sample 2 0, sample 1 0, sample 3 0]" 100 5
        "the (analyzeAsset ''BTC''
                [sample 4 0.01, sample 0 0, sample 2 0, sample 1 0, sample 3 0] 100 5)"]
    analyzeAsset_example
  by simp

subsection \<open>Expected value\<close>

lemma ev_lower: "1 / 2 \<le> (w::real) \<Longrightarrow> 0.0075 \<le> w * 0.03 - (1 - w) * 0.015"
  by (simp add: field_simps)

lemma expectedValue_eq:
  "expectedValue (calculatePosition a capital mode)
     = winProbability a * 0.03 - (1 - winProbability a) * 0.015"
  by (simp add: calculatePosition_def Let_def)

text \<open>
  C10. For every analysis returned by \<^verbatim>\<open>analyzeAsset\<close>, whose win probability is at
  least 0.50, and every capital and risk mode, the expected value computed by
  \<^verbatim>\<open>calculatePosition\<close> is the win probability times 0.03 minus the loss probability
  times 0.015, hence at least 0.0075 and positive.
\<close>

theorem expected_value_positive:
  "analyzeAsset s rs p n = Some a \<longrightarrow>
     0.50 \<le> winProbability a
     \<and> takeProfitPercent (calculatePosition a capital mode) = 0.03
     \<and> stopLossPercent (calculatePosition a capital mode) = 0.015
     \<and> expectedValue (calculatePosition a capital mode)
         = winProbability a * 0.03 - (1 - winProbability a) * 0.015
     \<and> 0.0075 \<le> expectedValue (calculatePosition a capital mode)
     \<and> 0 < expectedValue (calculatePosition a capital mode)"
proof
  assume h: "analyzeAsset s rs p n = Some a"
  have "winProbability a = winProbabilityOf (zScore a) (confirmations a) (isFundingReversing a)"
    by (subst (1 3) analyzeAsset_Some_score [OF h]) (simp only: scoreAnalysis_sel)
  then have w: "1 / 2 \<le> winProbability a"
    using winProbabilityOf_bounds [of "zScore a" "confirmations a" "isFundingReversing a"]
    by simp
  have tp: "takeProfitPercent (calculatePosition a capital mode) = 0.03"
    and sl: "stopLossPercent (calculatePosition a capital mode) = 0.015"
    by (simp_all add: calculatePosition_def Let_def)
  have ev: "0.0075 \<le> expectedValue (calculatePosition a capital mode)"
    unfolding expectedValue_eq by (rule ev_lower [OF w])
  show "0.50 \<le> winProbability a
     \<and> takeProfitPercent (calculatePosition a capital mode) = 0.03
     \<and> stopLossPercent (calculatePosition a capital mode) = 0.015
     \<and> expectedValue (calculatePosition a capital mode)
         = winProbability a * 0.03 - (1 - winProbability a) * 0.015
     \<and> 0.0075 \<le> expectedValue (calculatePosition a capital mode)
     \<and> 0 < expectedValue (calculatePosition a capital mode)"
    using w tp sl ev expectedValue_eq [of a capital mode] by simp
qed

theorem expected_value_positive_witness:
  "\<exists>a. analyzeAsset ''BTC'' [sample 4 0.01, sample 0 0, sample 2 0, sample 1 0, sample 3 0] 100 5
          = Some a
        \<and> winProbability a = 0.69
        \<and> expectedValue (calculatePosition a 5000 MEDIUM) = 0.01605
        \<and> 0.0075 \<le> expectedValue (calculatePosition a 5000 MEDIUM)"
  using expected_value_positive
      [of "''BTC''" "[sample 4 0.01, sample 0 0, sample 2 0, sample 1 0, sample 3 0]" 100 5
        "the (analyzeAsset ''BTC''
                [sample 4 0.01, sample 0 0, sample 2 0, sample 1 0, sample 3 0] 100 5)" 5000 MEDIUM]
    analyzeAsset_example
  by simp

subsection \<open>Progress toward the goal\<close>

lemma clamp_unit: "jmax (Fin 0) (jmin (Fin 1) x) = clamp x (Fin 0) (Fin 1)"
  by (cases x) (auto simp: clamp_def)

lemma jclamp_Fin: "jmax (Fin 0) (jmin (Fin 1) (Fin x)) = Fin (max 0 (min 1 x))"
  by (simp add: max_def min_def)

lemma log2_nonzero:
  assumes "0 < x" and "x \<noteq> 1"
  shows "log 2 x \<noteq> 0"
proof (cases "x < 1")
  case True
  with assms have "log 2 x < 0" by simp
  then show ?thesis by simp
next
  case False
  with assms have "1 < x" by simp
  then have "0 < log 2 x" by simp
  then show ?thesis by simp
qed

lemma log2_5_lower: "65 / 28 < log 2 (5::real)"
proof -
  have "real 65 < log 2 ((5::real) ^ 28)"
    by (rule less_log_of_power) simp_all
  also have "log 2 ((5::real) ^ 28) = real 28 * log 2 5"
    by (rule log_nat_power) simp
  finally show ?thesis by simp
qed

lemma log2_5_upper: "log 2 (5::real) < 137 / 59"
proof -
  have "real 59 * log 2 (5::real) = log 2 ((5::real) ^ 59)"
    by (rule log_nat_power [symmetric]) simp
  also have "\<dots> < 137"
    by (subst log_less_iff) simp_all
  finally show ?thesis by simp
qed

lemma log2_20: "log 2 (20::real) = 2 + log 2 5"
proof -
  have "log 2 ((2::real) ^ 2 * 5) = log 2 ((2::real) ^ 2) + log 2 5"
    by (rule log_mult_pos) simp_all
  also have "log 2 ((2::real) ^ 2) = real 2"
    by (rule log_pow_cancel) simp_all
  finally show ?thesis by simp
qed

lemma log2_20_bounds: "121 / 28 < log 2 (20::real) \<and> log 2 (20::real) < 255 / 59"
  using log2_5_lower log2_5_upper log2_20 by simp

lemma inv_log2_20_bounds:
  "0.23135 < 1 / log 2 (20::real) \<and> 1 / log 2 (20::real) < 0.23145"
proof -
  have lo: "121 / 28 < log 2 (20::real)" and hi: "log 2 (20::real) < 255 / 59"
    using log2_20_bounds by simp_all
  have pos: "0 < log 2 (20::real)" using lo by simp
  have "1 / log 2 (20::real) < 0.23145" using lo by (simp add: field_simps)
  moreover have "0.23135 < 1 / log 2 (20::real)" using hi pos by (simp add: field_simps)
  ultimately show ?thesis by simp
qed

lemma progress_example:
  "calculateProgress 10000 5000 100000 =
     \<lparr>linearProgress = Fin (1 / 19), logProgress = Fin (1 / log 2 20),
      doublings = Fin 1, doublingsRemaining = Fin (log 2 20 - 1)\<rparr>"
proof -
  have nz: "log 2 (20::real) \<noteq> 0" using log2_20_bounds by simp
  have le1: "1 / log 2 (20::real) < 1" using inv_log2_20_bounds by simp
  have ge0: "0 < 1 / log 2 (20::real)" using inv_log2_20_bounds by simp
  show ?thesis
    using nz le1 ge0 by (simp add: calculateProgress_def Let_def)
qed

text \<open>
  C8, as stated, gives the log progress of the scenario (current 10000, start 5000,
  goal 100000) as 0.2315 to four decimals. The value returned is \<open>1 / log\<^sub>2 20\<close>,
  which is 0.23138 and does not round to 0.2315.
\<close>

theorem progress_scenario_log_counterexample:
  "\<not> (\<exists>lg. logProgress (calculateProgress 10000 5000 100000) = Fin lg
            \<and> 0.23145 \<le> lg \<and> lg < 0.23155)"
  using inv_log2_20_bounds by (simp add: progress_example)

text \<open>
  C8, amended. For all arguments the linear progress is the quotient
  \<open>(current - start) / (goal - start)\<close> clamped to \<open>[0, 1]\<close> and the log progress is
  \<open>log\<^sub>2 (current / start) / log\<^sub>2 (goal / start)\<close> clamped to \<open>[0, 1]\<close>, as
  JavaScript evaluates them; for positive arguments with \<open>goal \<noteq> start\<close> these are
  the clamped real quotients. In the scenario the linear progress rounds to 0.0526,
  the completed doublings are 1, the total doublings round to 4.32 and the log progress
  rounds to 0.2314.
\<close>

theorem progress_clamped:
  "linearProgress (calculateProgress current start goal)
     = clamp (jdiv (jsub (Fin current) (Fin start)) (jsub (Fin goal) (Fin start))) (Fin 0) (Fin 1)
   \<and> logProgress (calculateProgress current start goal)
     = clamp (jdiv (jlog2 (jdiv (Fin current) (Fin start))) (jlog2 (jdiv (Fin goal) (Fin start))))
         (Fin 0) (Fin 1)
   \<and> (0 < start \<and> 0 < current \<and> 0 < goal \<and> goal \<noteq> start \<longrightarrow>
        linearProgress (calculateProgress current start goal)
          = Fin (max 0 (min 1 ((current - start) / (goal - start))))
        \<and> logProgress (calculateProgress current start goal)
          = Fin (max 0 (min 1 (log 2 (current / start) / log 2 (goal / start)))))
   \<and> (\<exists>lin tot lg.
         calculateProgress 10000 5000 100000
           = \<lparr>linearProgress = Fin lin, logProgress = Fin lg,
              doublings = Fin 1, doublingsRemaining = Fin (tot - 1)\<rparr>
         \<and> 0.05255 \<le> lin \<and> lin < 0.05265
         \<and> 4.315 \<le> tot \<and> tot < 4.325
         \<and> 0.23135 \<le> lg \<and> lg < 0.23145)"
proof (intro conjI impI)
  show "linearProgress (calculateProgress current start goal)
     = clamp (jdiv (jsub (Fin current) (Fin start)) (jsub (Fin goal) (Fin start))) (Fin 0) (Fin 1)"
    by (simp add: calculateProgress_def Let_def clamp_unit)
  show "logProgress (calculateProgress current start goal)
     = clamp (jdiv (jlog2 (jdiv (Fin current) (Fin start))) (jlog2 (jdiv (Fin goal) (Fin start))))
         (Fin 0) (Fin 1)"
    by (simp add: calculateProgress_def Let_def clamp_unit)
next
  assume h: "0 < start \<and> 0 < current \<and> 0 < goal \<and> goal \<noteq> start"
  then show "linearProgress (calculateProgress current start goal)
          = Fin (max 0 (min 1 ((current - start) / (goal - start))))"
    by (simp add: calculateProgress_def Let_def jclamp_Fin del: jmax.simps jmin.simps)
  from h have "0 < goal / start" and "goal / start \<noteq> 1" by simp_all
  then have nz: "log 2 (goal / start) \<noteq> 0" by (rule log2_nonzero)
  from h have "0 < current / start" by simp
  with h nz show "logProgress (calculateProgress current start goal)
          = Fin (max 0 (min 1 (log 2 (current / start) / log 2 (goal / start))))"
    by (simp add: calculateProgress_def Let_def jclamp_Fin del: jmax.simps jmin.simps)
next
  have a: "0.05255 \<le> 1 / (19::real) \<and> 1 / (19::real) < 0.05265" by simp
  have b: "4.315 \<le> log 2 (20::real) \<and> log 2 (20::real) < 4.325"
    using log2_20_bounds by simp
  have c: "0.23135 \<le> 1 / log 2 (20::real) \<and> 1 / log 2 (20::real) < 0.23145"
    using inv_log2_20_bounds by simp
  show "\<exists>lin tot lg.
         calculateProgress 10000 5000 100000
           = \<lparr>linearProgress = Fin lin, logProgress = Fin lg,
              doublings = Fin 1, doublingsRemaining = Fin (tot - 1)\<rparr>
         \<and> 0.05255 \<le> lin \<and> lin < 0.05265
         \<and> 4.315 \<le> tot \<and> tot < 4.325
         \<and> 0.23135 \<le> lg \<and> lg < 0.23145"
    using progress_example a b c by blast
qed

theorem progress_clamped_witness:
  "(0::real) < 5000 \<and> (0::real) < 10000 \<and> (0::real) < 100000 \<and> (100000::real) \<noteq> 5000
   \<and> linearProgress (calculateProgress 10000 5000 100000) = Fin (1 / 19)
   \<and> logProgress (calculateProgress 10000 5000 100000) = Fin (1 / log 2 20)
   \<and> linearProgress (calculateProgress 200000 5000 100000) = Fin 1
   \<and> linearProgress (calculateProgress 1000 5000 100000) = Fin 0
   \<and> linearProgress (calculateProgress 6000 5000 5000) = Fin 1
   \<and> logProgress (calculateProgress 0 5000 100000) = Fin 0
   \<and> linearProgress (calculateProgress 5000 5000 5000) = NaN"
  using progress_clamped [of 10000 5000 100000] progress_example
  by (simp add: calculateProgress_def Let_def)

end
